theory Spec2Isabelle
  imports Complex_Main "HOL-Library.Word"
begin

unbundle bit_operations_syntax

section \<open>Nixie clock firmware (src/Arduino/nixie.ino)\<close>

text \<open>
  The firmware runs on an ATmega32u4, where \<^verbatim>\<open>int\<close> has 16 bits. Every \<^verbatim>\<open>int\<close> of
  the sketch is modelled as a HOL \<^typ>\<open>int\<close>: the values the sketch computes from
  clock fields, alarm fields, analog readings and brightness percentages stay far
  inside the 16-bit range, so no operation below wraps. Bytes that cross a bus or
  live in the EEPROM are \<^typ>\<open>8 word\<close>. C's \<^verbatim>\<open>/\<close> and \<^verbatim>\<open>%\<close> truncate towards
  zero, unlike HOL's \<open>div\<close> and \<open>mod\<close>; they are written out as \<open>c_div\<close>
  and \<open>c_mod\<close>.
\<close>

type_synonym byte = "8 word"

definition c_div :: "int \<Rightarrow> int \<Rightarrow> int" where
  "c_div a b = sgn a * sgn b * (\<bar>a\<bar> div \<bar>b\<bar>)"

definition c_mod :: "int \<Rightarrow> int \<Rightarrow> int" where
  "c_mod a b = a - b * c_div a b"

subsection \<open>Constants and globals\<close>

definition minBrightness :: int where "minBrightness = 50"


definition setButton :: int where "setButton = 5"
definition modeButton :: int where "modeButton = 6"

text \<open>Pin numbers (\<^verbatim>\<open>A0\<close> is pin 18 on the Pro Micro).\<close>

definition strobePin :: int where "strobePin = 18"
definition dataPin :: int where "dataPin = 16"
definition clkPin :: int where "clkPin = 15"
definition decimalPoint :: int where "decimalPoint = 6"
definition al1Light :: int where "al1Light = 4"
definition al2Light :: int where "al2Light = 7"

definition switchInterval :: int where "switchInterval = 5"
definition fadeDuration :: int where "fadeDuration = 150"

definition MODE_DISPLAY_TIME :: int where "MODE_DISPLAY_TIME = 0"
definition MODE_DISPLAY_DATETIME :: int where "MODE_DISPLAY_DATETIME = 1"
definition MODE_SET :: int where "MODE_SET = 2"

text \<open>Indices into \<^verbatim>\<open>date[3]\<close> and \<^verbatim>\<open>time[3]\<close>.\<close>

definition day :: nat where "day = 0"
definition month :: nat where "month = 1"
definition year :: nat where "year = 2"

definition hours :: nat where "hours = 0"
definition minutes :: nat where "minutes = 1"
definition seconds :: nat where "seconds = 2"

lemmas index_defs = day_def month_def year_def hours_def minutes_def seconds_def

record alarmSettings_t =
  al1Enabled :: bool
  al2Enabled :: bool
  al1Time :: "int list"
  al2Time :: "int list"

record globals =
  lastBrightness :: int
  date :: "int list"
  time :: "int list"
  prevTime :: "int list"
  alarmSettings :: alarmSettings_t
  mode :: int
  cathodeClean :: bool

text \<open>The initial values the sketch gives its globals.\<close>

definition globals0 :: globals where
  "globals0 =
     \<lparr> lastBrightness = minBrightness,
       date = [1, 1, 0],
       time = [0, 0, 0],
       prevTime = [0, 0, 0],
       alarmSettings =
         \<lparr> al1Enabled = False, al2Enabled = False, al1Time = [0, 0], al2Time = [0, 0] \<rparr>,
       mode = MODE_DISPLAY_TIME,
       cathodeClean = False \<rparr>"

subsection \<open>restrictAlarm, restrictTime, restrictDate\<close>

text \<open>
  Each routine edits its array argument in place, one field after the other; the model
  returns the edited array.
\<close>

definition restrictAlarm :: "int list \<Rightarrow> int list" where
  "restrictAlarm newAlarm =
     (let newAlarm =
            (if newAlarm ! hours > 23 then newAlarm[hours := 0]
             else if newAlarm ! hours < 0 then newAlarm[hours := 23]
             else newAlarm);
          newAlarm =
            (if newAlarm ! minutes > 59 then newAlarm[minutes := 0]
             else if newAlarm ! minutes < 0 then newAlarm[minutes := 59]
             else newAlarm)
      in newAlarm)"

definition restrictTime :: "int list \<Rightarrow> int list" where
  "restrictTime newTime =
     (let newTime =
            (if newTime ! hours > 23 then newTime[hours := 0]
             else if newTime ! hours < 0 then newTime[hours := 23]
             else newTime);
          newTime =
            (if newTime ! minutes > 59 then newTime[minutes := 0]
             else if newTime ! minutes < 0 then newTime[minutes := 59]
             else newTime);
          newTime =
            (if newTime ! seconds > 59 then newTime[seconds := 0]
             else if newTime ! seconds < 0 then newTime[seconds := 59]
             else newTime)
      in newTime)"

definition restrictDate :: "int list \<Rightarrow> int list" where
  "restrictDate newDate =
     (let newDate =
            (if newDate ! day > 31 then newDate[day := 1]
             else if newDate ! day < 1 then newDate[day := 31]
             else newDate);
          newDate =
            (if newDate ! month > 12 then newDate[month := 1]
             else if newDate ! month < 1 then newDate[month := 12]
             else newDate);
          newDate =
            (if newDate ! year > 99 then newDate[year := 0]
             else if newDate ! year < 0 then newDate[year := 99]
             else newDate)
      in newDate)"

subsection \<open>The DS3234 real-time clock\<close>

text \<open>
  The clock chip is hardware outside the sketch. Its register file is a map from
  register address to byte, and one chip-select bracket holds two transfers: an
  address byte, then a data byte. An address byte with the top bit set writes the data
  byte to register \<open>address - 0x80\<close>; any other address byte makes the second
  transfer return that register.
\<close>

type_synonym rtc = "byte \<Rightarrow> byte"

definition rtc_write :: "byte \<Rightarrow> byte \<Rightarrow> rtc \<Rightarrow> rtc" where
  "rtc_write addr val regs = (if bit addr 7 then regs(addr - 0x80 := val) else regs)"

definition rtc_read :: "byte \<Rightarrow> rtc \<Rightarrow> byte" where
  "rtc_read addr regs = regs addr"

text \<open>
  \<^verbatim>\<open>setDateTime\<close>: the loop over \<^verbatim>\<open>i\<close> from 0 to 6 that steps over index 3. Both
  \<^verbatim>\<open>SPI.transfer\<close> arguments are cut to a byte. The two assignments to \<^verbatim>\<open>b\<close> in
  the hours branch are kept as written.
\<close>

function setDateTime_loop :: "nat \<Rightarrow> int list \<Rightarrow> rtc \<Rightarrow> rtc" where
  "setDateTime_loop i TimeDate regs =
     (if i < 7 then
        (let i = (if i = 3 then i + 1 else i);
             b = c_div (TimeDate ! i) 10;
             a = TimeDate ! i - b * 10;
             b = (if i = 2 then (if b = 2 then 2 else if b = 1 then 1 else b) else b);
             TimeDate = TimeDate[i := a + push_bit 4 b];
             regs = rtc_write (word_of_int (int i + 0x80)) (word_of_int (TimeDate ! i)) regs
         in setDateTime_loop (i + 1) TimeDate regs)
      else regs)"
  by pat_completeness auto
termination
  by (relation "measure (\<lambda>(i, TimeDate, regs). 7 - i)") auto

declare setDateTime_loop.simps [simp del]

definition setDateTime :: "int list \<Rightarrow> int list \<Rightarrow> rtc \<Rightarrow> rtc" where
  "setDateTime newDate newTime regs =
     setDateTime_loop 0
       [newTime ! seconds, newTime ! minutes, newTime ! hours, 0,
        newDate ! day, newDate ! month, newDate ! year] regs"

text \<open>
  \<^verbatim>\<open>readDateTime\<close>: the same walk over the registers. The local array
  \<^verbatim>\<open>TimeDate\<close> starts uninitialised in the sketch; its element 3 is never read, and the
  model starts it at zero. The six assignments at the end fill both global arrays.
\<close>

function readDateTime_loop :: "nat \<Rightarrow> int list \<Rightarrow> rtc \<Rightarrow> int list" where
  "readDateTime_loop i TimeDate regs =
     (if i < 7 then
        (let i = (if i = 3 then 4 else i);
             n = uint (rtc_read (word_of_int (int i + 0x00)) regs);
             a = n AND 0x0F;
             TimeDate =
               (if i = 2 then
                  (let b = drop_bit 4 (n AND 0x30);
                       b = (if b = 2 then 20 else if b = 1 then 10 else b)
                   in TimeDate[i := a + b])
                else if i = 4 then
                  (let b = drop_bit 4 (n AND 0x30) in TimeDate[i := a + b * 10])
                else if i = 5 then
                  (let b = drop_bit 4 (n AND 0x10) in TimeDate[i := a + b * 10])
                else if i = 6 then
                  (let b = drop_bit 4 (n AND 0xF0) in TimeDate[i := a + b * 10])
                else
                  (let b = drop_bit 4 (n AND 0x70) in TimeDate[i := a + b * 10]))
         in readDateTime_loop (i + 1) TimeDate regs)
      else TimeDate)"
  by pat_completeness auto
termination
  by (relation "measure (\<lambda>(i, TimeDate, regs). 7 - i)") auto

declare readDateTime_loop.simps [simp del]

definition readDateTime :: "rtc \<Rightarrow> globals \<Rightarrow> globals" where
  "readDateTime regs g =
     (let TimeDate = readDateTime_loop 0 (replicate 7 0) regs
      in g\<lparr> date := [TimeDate ! 4, TimeDate ! 5, TimeDate ! 6],
             time := [TimeDate ! 2, TimeDate ! 1, TimeDate ! 0] \<rparr>)"

text \<open>
  The register contents in the words of the specification: ones digit in the low
  nibble, tens digit above it.
\<close>

definition bcd_byte :: "int \<Rightarrow> byte" where
  "bcd_byte v = word_of_int (v mod 10 + 16 * (v div 10))"

subsection \<open>The display driver\<close>

text \<open>
  What the sketch does to its pins is a list of effects, in program order. Inside
  \<^verbatim>\<open>displayTime\<close> and \<^verbatim>\<open>shift10\<close> every \<^verbatim>\<open>digitalWrite\<close> is listed; the
  callers of \<^verbatim>\<open>displayTime\<close> and \<^verbatim>\<open>fadeTo\<close> list the call with its arguments.
  \<open>True\<close> is \<^verbatim>\<open>HIGH\<close>.
\<close>

datatype effect =
  DigitalWrite int bool
  | AnalogWrite int int
  | DisplayTime "int list"
  | FadeTo "int list" "int list" int

text \<open>
  The digit table \<^verbatim>\<open>numbers[10]\<close> and the blank frame. C does not check an array
  index: a read outside the table is a fault of the model, carrying the index.
\<close>

definition numbers :: "int list" where
  "numbers =
     [0b1111111110,
      0b0111111111,
      0b1011111111,
      0b1101111111,
      0b1110111111,
      0b1111011111,
      0b1111101111,
      0b1111110111,
      0b1111111011,
      0b1111111101]"

definition blank :: int where
  "blank = 0b1111111111"

datatype fault = OutOfBounds int

definition numbers_at :: "int \<Rightarrow> fault + int" where
  "numbers_at k = (if 0 \<le> k \<and> k < 10 then Inr (numbers ! nat k) else Inl (OutOfBounds k))"

text \<open>\<^verbatim>\<open>shift10\<close>: ten bits, most significant first, one clock pulse after each.\<close>

function shift10_loop :: "nat \<Rightarrow> int \<Rightarrow> int \<Rightarrow> int \<Rightarrow> effect list" where
  "shift10_loop i dPin cPin val =
     (if i < 10 then
        [DigitalWrite dPin (val AND push_bit (9 - i) 1 \<noteq> 0),
         DigitalWrite cPin True,
         DigitalWrite cPin False] @ shift10_loop (i + 1) dPin cPin val
      else [])"
  by pat_completeness auto
termination
  by (relation "measure (\<lambda>(i, dPin, cPin, val). 10 - i)") auto

declare shift10_loop.simps [simp del]

definition shift10 :: "int \<Rightarrow> int \<Rightarrow> int \<Rightarrow> effect list" where
  "shift10 dPin cPin val = shift10_loop 0 dPin cPin val"

text \<open>
  \<^verbatim>\<open>displayTime\<close>: the loop runs \<^verbatim>\<open>i\<close> from 2 down to 0 and stops when
  \<^verbatim>\<open>i\<close> falls below 0; the strobe pulse follows. \<open>displayTime_field\<close> is the
  body of the loop for the field \<^verbatim>\<open>time[i]\<close>.
\<close>

definition displayTime_field :: "int \<Rightarrow> fault + effect list" where
  "displayTime_field v =
     (if v > 99 then Inr (shift10 dataPin clkPin blank @ shift10 dataPin clkPin blank)
      else
        (case numbers_at (c_mod v 10) of
           Inl e \<Rightarrow> Inl e
         | Inr units \<Rightarrow>
             (case numbers_at (c_div v 10) of
                Inl e \<Rightarrow> Inl e
              | Inr tens \<Rightarrow> Inr (shift10 dataPin clkPin units @ shift10 dataPin clkPin tens))))"

function displayTime_loop :: "int \<Rightarrow> int list \<Rightarrow> fault + effect list" where
  "displayTime_loop i t =
     (if i \<ge> 0 then
        (case displayTime_field (t ! nat i) of
           Inl e \<Rightarrow> Inl e
         | Inr frames \<Rightarrow>
             (case displayTime_loop (i - 1) t of
                Inl e \<Rightarrow> Inl e
              | Inr rest \<Rightarrow> Inr (frames @ rest)))
      else Inr [])"
  by pat_completeness auto
termination
  by (relation "measure (\<lambda>(i, t). nat (i + 1))") auto

declare displayTime_loop.simps [simp del]

definition displayTime :: "int list \<Rightarrow> fault + effect list" where
  "displayTime t =
     (case displayTime_loop 2 t of
        Inl e \<Rightarrow> Inl e
      | Inr frames \<Rightarrow>
          Inr (frames @ [DigitalWrite strobePin True, DigitalWrite strobePin False]))"

text \<open>
  The frame stream in the words of the specification: per field two blank frames or
  the units digit's frame and then the tens digit's frame, fields 2, 1, 0, then the
  strobe pulse. A frame is ten data bits, most significant first, each followed by a
  clock pulse.
\<close>

definition frame :: "int \<Rightarrow> effect list" where
  "frame val =
     concat (map (\<lambda>k. [DigitalWrite dataPin (bit val (9 - k)),
                        DigitalWrite clkPin True,
                        DigitalWrite clkPin False]) [0..<10])"

definition field_frames :: "int \<Rightarrow> effect list" where
  "field_frames v =
     (if v > 99 then frame blank @ frame blank
      else frame (numbers ! nat (v mod 10)) @ frame (numbers ! nat (v div 10)))"

definition frame_stream :: "int list \<Rightarrow> effect list" where
  "frame_stream t =
     field_frames (t ! 2) @ field_frames (t ! 1) @ field_frames (t ! 0)
       @ [DigitalWrite strobePin True, DigitalWrite strobePin False]"

subsection \<open>The time-update handler\<close>

text \<open>
  \<^verbatim>\<open>updateDisplay\<close>: the \<^verbatim>\<open>switch\<close> has no default, so any other mode draws
  nothing. The test \<^verbatim>\<open>(float) time[seconds] / switchInterval == 0.0\<close> divides two
  small integers that a float holds exactly, and a float quotient of such numbers is
  zero only when the real quotient is; it is written with the real quotient.
\<close>

definition updateDisplay :: "globals \<Rightarrow> effect list" where
  "updateDisplay g =
     (if mode g = MODE_DISPLAY_TIME then
        [FadeTo (time g) (prevTime g) fadeDuration,
         DigitalWrite decimalPoint False]
      else if mode g = MODE_DISPLAY_DATETIME then
        (if c_mod (c_div (time g ! seconds) switchInterval) 2 = 0 then
           (if real_of_int (time g ! seconds) / real_of_int switchInterval = 0 then
              [DisplayTime (time g)]
            else
              [FadeTo (time g) (prevTime g) fadeDuration])
           @ [DigitalWrite decimalPoint False]
         else
           [DisplayTime (date g),
            DigitalWrite decimalPoint (c_mod (time g ! seconds) 2 = 0)])
      else [])"

text \<open>
  \<^verbatim>\<open>updateTime\<close>, the interrupt handler: read the chip, set the cleaning flag, draw
  unless cleaning, then copy \<^verbatim>\<open>time\<close> to \<^verbatim>\<open>prevTime\<close>.
\<close>

definition updateTime :: "rtc \<Rightarrow> globals \<Rightarrow> globals \<times> effect list" where
  "updateTime regs g =
     (let g = readDateTime regs g;
          g = g\<lparr> cathodeClean :=
                    (c_mod (time g ! minutes) 20 = 0 \<and> time g ! seconds < 3
                       \<and> mode g \<noteq> MODE_SET) \<rparr>;
          out = (if \<not> cathodeClean g then updateDisplay g else []);
          g = g\<lparr> prevTime := time g \<rparr>
      in (g, out))"

subsection \<open>The alarm scheduler\<close>

text \<open>
  \<^verbatim>\<open>handleAlarms\<close> guards each buzzer loop with one condition; these are the two
  conditions, as written.
\<close>

definition handleAlarms_al1 :: "globals \<Rightarrow> bool" where
  "handleAlarms_al1 g =
     (al1Enabled (alarmSettings g)
      \<and> time g ! hours = al1Time (alarmSettings g) ! hours
      \<and> time g ! minutes = al1Time (alarmSettings g) ! minutes
      \<and> time g ! seconds = 0)"

definition handleAlarms_al2 :: "globals \<Rightarrow> bool" where
  "handleAlarms_al2 g =
     (al2Enabled (alarmSettings g)
      \<and> time g ! hours = al2Time (alarmSettings g) ! hours
      \<and> time g ! minutes = al2Time (alarmSettings g) ! minutes
      \<and> time g ! seconds = 0)"

subsection \<open>The persistent alarm store\<close>

text \<open>
  \<^verbatim>\<open>eeprom_write_block\<close> and \<^verbatim>\<open>eeprom_read_block\<close> of avr-libc copy a block of bytes
  between memory and the EEPROM. The block is the object representation of
  \<^verbatim>\<open>alarmSettings\<close> as avr-gcc lays it out: no padding, one byte per \<^verbatim>\<open>bool\<close>, two
  bytes per \<^verbatim>\<open>int\<close> (low byte first, two's complement), ten bytes in all. A
  \<^verbatim>\<open>bool\<close> read back from a byte is true when the byte is not zero.
\<close>

type_synonym eeprom = "nat \<Rightarrow> byte"

definition bool_byte :: "bool \<Rightarrow> byte" where
  "bool_byte b = (if b then 1 else 0)"

definition byte_bool :: "byte \<Rightarrow> bool" where
  "byte_bool x = (x \<noteq> 0)"

definition int_bytes :: "int \<Rightarrow> byte list" where
  "int_bytes v = [word_of_int v, word_of_int (drop_bit 8 v)]"

definition bytes_int :: "byte \<Rightarrow> byte \<Rightarrow> int" where
  "bytes_int lo hi =
     (let u = uint lo + 256 * uint hi in if u \<ge> 32768 then u - 65536 else u)"

definition alarmSettings_bytes :: "alarmSettings_t \<Rightarrow> byte list" where
  "alarmSettings_bytes a =
     [bool_byte (al1Enabled a), bool_byte (al2Enabled a)]
       @ int_bytes (al1Time a ! 0) @ int_bytes (al1Time a ! 1)
       @ int_bytes (al2Time a ! 0) @ int_bytes (al2Time a ! 1)"

definition bytes_alarmSettings :: "byte list \<Rightarrow> alarmSettings_t" where
  "bytes_alarmSettings bs =
     \<lparr> al1Enabled = byte_bool (bs ! 0),
       al2Enabled = byte_bool (bs ! 1),
       al1Time = [bytes_int (bs ! 2) (bs ! 3), bytes_int (bs ! 4) (bs ! 5)],
       al2Time = [bytes_int (bs ! 6) (bs ! 7), bytes_int (bs ! 8) (bs ! 9)] \<rparr>"

definition sizeof_alarmSettings :: nat where
  "sizeof_alarmSettings = 10"

definition eeprom_write_block :: "byte list \<Rightarrow> nat \<Rightarrow> nat \<Rightarrow> eeprom \<Rightarrow> eeprom" where
  "eeprom_write_block src dst n ee =
     (\<lambda>a. if dst \<le> a \<and> a < dst + n then src ! (a - dst) else ee a)"

definition eeprom_read_block :: "nat \<Rightarrow> nat \<Rightarrow> eeprom \<Rightarrow> byte list" where
  "eeprom_read_block src n ee = map ee [src..<src + n]"

definition saveAlarmSettings :: "globals \<Rightarrow> eeprom \<Rightarrow> eeprom" where
  "saveAlarmSettings g ee =
     eeprom_write_block (alarmSettings_bytes (alarmSettings g)) 0 sizeof_alarmSettings ee"

definition loadAlarmSettings :: "eeprom \<Rightarrow> globals \<Rightarrow> globals \<times> effect list" where
  "loadAlarmSettings ee g =
     (let a = bytes_alarmSettings (eeprom_read_block 0 sizeof_alarmSettings ee);
          a = a\<lparr> al1Time := restrictAlarm (al1Time a) \<rparr>;
          a = a\<lparr> al2Time := restrictAlarm (al2Time a) \<rparr>
      in (g\<lparr> alarmSettings := a \<rparr>,
          [DigitalWrite al1Light (al1Enabled a), DigitalWrite al2Light (al2Enabled a)]))"

subsection \<open>The alarm flows\<close>












definition alarm_in_range :: "int list \<Rightarrow> bool" where
  "alarm_in_range t =
     (length t = 2 \<and> 0 \<le> t ! hours \<and> t ! hours \<le> 23 \<and> 0 \<le> t ! minutes \<and> t ! minutes \<le> 59)"



subsection \<open>The brightness controller\<close>








text \<open>
  The wrap policy in the words of the specification: a value above the maximum becomes
  the minimum, a value below the minimum becomes the maximum, anything else stays.
\<close>

definition wrap_field :: "int \<Rightarrow> int \<Rightarrow> int \<Rightarrow> int" where
  "wrap_field lo hi v = (if v > hi then lo else if v < lo then hi else v)"

section \<open>Field wrapping\<close>

lemma restrictAlarm_fields:
  "restrictAlarm [h, m] = [wrap_field 0 23 h, wrap_field 0 59 m]"
  by (simp add: restrictAlarm_def wrap_field_def index_defs Let_def)

lemma restrictTime_fields:
  "restrictTime [h, m, s] = [wrap_field 0 23 h, wrap_field 0 59 m, wrap_field 0 59 s]"
  by (simp add: restrictTime_def wrap_field_def index_defs Let_def)

lemma restrictDate_fields:
  "restrictDate [d, mo, y] = [wrap_field 1 31 d, wrap_field 1 12 mo, wrap_field 0 99 y]"
  by (simp add: restrictDate_def wrap_field_def index_defs Let_def)

text \<open>
  Claim C3. \<open>restrictTime\<close>, \<open>restrictDate\<close> and \<open>restrictAlarm\<close> wrap every
  field on its own: a field above its maximum is reset to its minimum, a field below
  its minimum is reset to its maximum, and a field in range is unchanged. The ranges
  are hours 0-23, minutes and seconds 0-59, day 1-31, month 1-12 and year 0-99. The
  boundary values named by the claim are listed last.
\<close>

theorem restrict_wraps:
  "restrictTime [h, m, s] = [wrap_field 0 23 h, wrap_field 0 59 m, wrap_field 0 59 s]
   \<and> restrictDate [d, mo, y] = [wrap_field 1 31 d, wrap_field 1 12 mo, wrap_field 0 99 y]
   \<and> restrictAlarm [ah, am] = [wrap_field 0 23 ah, wrap_field 0 59 am]
   \<and> restrictTime [24, 60, 60] = [0, 0, 0]
   \<and> restrictTime [- 1, - 1, - 1] = [23, 59, 59]
   \<and> restrictDate [32, 13, 100] = [1, 1, 0]
   \<and> restrictDate [0, 0, - 1] = [31, 12, 99]
   \<and> restrictAlarm [24, 60] = [0, 0]
   \<and> restrictAlarm [- 1, - 1] = [23, 59]"
  by (simp add: restrictAlarm_fields restrictTime_fields restrictDate_fields wrap_field_def)

theorem restrict_wraps_witness:
  "restrictTime [25, 30, - 7] = [0, 30, 59]
   \<and> restrictDate [31, 0, 2000] = [31, 12, 0]
   \<and> restrictAlarm [- 3, 59] = [23, 59]"
  using restrict_wraps [of 25 30 "- 7" 31 0 2000 "- 3" 59]
  by (simp add: wrap_field_def)

section \<open>The clock chip's register block\<close>

lemma hours_code: "(if b = 2 then 2 else if b = 1 then 1 else b) = (b::int)"
  by simp

lemma c_div_nonneg: "0 \<le> a \<Longrightarrow> 0 < b \<Longrightarrow> c_div a b = a div b"
  by (simp add: c_div_def sgn_if)

lemma packed_eq_bcd: "0 \<le> v \<Longrightarrow> word_of_int (v - c_div v 10 * 10 + push_bit 4 (c_div v 10)) = bcd_byte v"
  by (simp add: c_div_nonneg bcd_byte_def push_bit_eq_mult minus_div_mult_eq_mod)

lemma setDateTime_loop_regs:
  "setDateTime_loop 0 [s, m, h, x, d, mo, y] regs =
     regs(0 := word_of_int (s - c_div s 10 * 10 + push_bit 4 (c_div s 10)),
          1 := word_of_int (m - c_div m 10 * 10 + push_bit 4 (c_div m 10)),
          2 := word_of_int (h - c_div h 10 * 10 + push_bit 4 (c_div h 10)),
          4 := word_of_int (d - c_div d 10 * 10 + push_bit 4 (c_div d 10)),
          5 := word_of_int (mo - c_div mo 10 * 10 + push_bit 4 (c_div mo 10)),
          6 := word_of_int (y - c_div y 10 * 10 + push_bit 4 (c_div y 10)))"
  by (simp add: setDateTime_loop.simps Let_def rtc_write_def hours_code)

lemma readDateTime_loop_regs:
  "readDateTime_loop 0 [t0, t1, t2, t3, t4, t5, t6] regs =
     [(uint (regs 0) AND 0x0F) + drop_bit 4 (uint (regs 0) AND 0x70) * 10,
      (uint (regs 1) AND 0x0F) + drop_bit 4 (uint (regs 1) AND 0x70) * 10,
      (uint (regs 2) AND 0x0F) +
        (let b = drop_bit 4 (uint (regs 2) AND 0x30)
         in if b = 2 then 20 else if b = 1 then 10 else b),
      t3,
      (uint (regs 4) AND 0x0F) + drop_bit 4 (uint (regs 4) AND 0x30) * 10,
      (uint (regs 5) AND 0x0F) + drop_bit 4 (uint (regs 5) AND 0x10) * 10,
      (uint (regs 6) AND 0x0F) + drop_bit 4 (uint (regs 6) AND 0xF0) * 10]"
  by (simp add: readDateTime_loop.simps Let_def rtc_read_def)

lemma all_upto: "list_all P [a..b] \<Longrightarrow> a \<le> v \<Longrightarrow> v \<le> b \<Longrightarrow> P v"
  by (simp add: list_all_iff)

lemma dec_70_table:
  "list_all (\<lambda>v. (uint (bcd_byte v) AND 0x0F) + drop_bit 4 (uint (bcd_byte v) AND 0x70) * 10 = v) [0..59]"
  by code_simp

lemma dec_30_table:
  "list_all (\<lambda>v. (uint (bcd_byte v) AND 0x0F) + drop_bit 4 (uint (bcd_byte v) AND 0x30) * 10 = v) [1..31]"
  by code_simp

lemma dec_10_table:
  "list_all (\<lambda>v. (uint (bcd_byte v) AND 0x0F) + drop_bit 4 (uint (bcd_byte v) AND 0x10) * 10 = v) [1..12]"
  by code_simp

lemma dec_F0_table:
  "list_all (\<lambda>v. (uint (bcd_byte v) AND 0x0F) + drop_bit 4 (uint (bcd_byte v) AND 0xF0) * 10 = v) [0..99]"
  by code_simp

lemma dec_hours_table:
  "list_all (\<lambda>v. (uint (bcd_byte v) AND 0x0F) +
        (let b = drop_bit 4 (uint (bcd_byte v) AND 0x30)
         in if b = 2 then 20 else if b = 1 then 10 else b) = v) [0..23]"
  by code_simp

lemma replicate_7: "replicate 7 (x::int) = [x, x, x, x, x, x, x]"
  by (simp add: numeral_eq_Suc)

text \<open>
  Claim C1. Writing a date and time with every field in its range (seconds and minutes
  0-59, hours 0-23, day 1-31, month 1-12, year 0-99) to the clock chip and reading
  the chip back yields the same six fields. The block written holds one BCD byte per
  field in registers 0, 1, 2, 4, 5 and 6 (ones digit in the low nibble, tens digit
  above it) and leaves register 3 as it was; the reader masks the tens digit with 3
  bits for seconds and minutes, 2 bits for hours and day, 1 bit for month and 4 bits
  for year, and turns the hours code 01 into 10 and 10 into 20.
\<close>

theorem rtc_roundtrip:
  assumes "0 \<le> s" "s \<le> 59" "0 \<le> m" "m \<le> 59" "0 \<le> h" "h \<le> 23"
    and "1 \<le> d" "d \<le> 31" "1 \<le> mo" "mo \<le> 12" "0 \<le> y" "y \<le> 99"
  shows "readDateTime (setDateTime [d, mo, y] [h, m, s] regs) g
           = g\<lparr> date := [d, mo, y], time := [h, m, s] \<rparr>
         \<and> setDateTime [d, mo, y] [h, m, s] regs
           = regs(0 := bcd_byte s, 1 := bcd_byte m, 2 := bcd_byte h,
                  4 := bcd_byte d, 5 := bcd_byte mo, 6 := bcd_byte y)"
proof -
  let ?regs = "regs(0 := bcd_byte s, 1 := bcd_byte m, 2 := bcd_byte h,
                  4 := bcd_byte d, 5 := bcd_byte mo, 6 := bcd_byte y)"
  have "setDateTime [d, mo, y] [h, m, s] regs = setDateTime_loop 0 [s, m, h, 0, d, mo, y] regs"
    by (simp add: setDateTime_def index_defs)
  also have "\<dots> = ?regs"
    unfolding setDateTime_loop_regs using assms by (simp only: packed_eq_bcd)
  finally have w: "setDateTime [d, mo, y] [h, m, s] regs = ?regs" .
  have s: "(uint (bcd_byte s) AND 0x0F) + drop_bit 4 (uint (bcd_byte s) AND 0x70) * 10 = s"
    using all_upto [OF dec_70_table] assms by simp
  have m: "(uint (bcd_byte m) AND 0x0F) + drop_bit 4 (uint (bcd_byte m) AND 0x70) * 10 = m"
    using all_upto [OF dec_70_table] assms by simp
  have h: "(uint (bcd_byte h) AND 0x0F) +
        (let b = drop_bit 4 (uint (bcd_byte h) AND 0x30)
         in if b = 2 then 20 else if b = 1 then 10 else b) = h"
    using all_upto [OF dec_hours_table] assms by simp
  have d: "(uint (bcd_byte d) AND 0x0F) + drop_bit 4 (uint (bcd_byte d) AND 0x30) * 10 = d"
    using all_upto [OF dec_30_table] assms by simp
  have mo: "(uint (bcd_byte mo) AND 0x0F) + drop_bit 4 (uint (bcd_byte mo) AND 0x10) * 10 = mo"
    using all_upto [OF dec_10_table] assms by simp
  have y: "(uint (bcd_byte y) AND 0x0F) + drop_bit 4 (uint (bcd_byte y) AND 0xF0) * 10 = y"
    using all_upto [OF dec_F0_table] assms by simp
  have r0: "?regs 0 = bcd_byte s" and r1: "?regs 1 = bcd_byte m" and r2: "?regs 2 = bcd_byte h"
    and r4: "?regs 4 = bcd_byte d" and r5: "?regs 5 = bcd_byte mo" and r6: "?regs 6 = bcd_byte y"
    by simp_all
  have loop: "readDateTime_loop 0 [0, 0, 0, 0, 0, 0, 0] ?regs = [s, m, h, 0, d, mo, y]"
    unfolding readDateTime_loop_regs r0 r1 r2 r4 r5 r6 s m h d mo y ..
  have r: "readDateTime ?regs g = g\<lparr> date := [d, mo, y], time := [h, m, s] \<rparr>"
    unfolding readDateTime_def replicate_7 loop by simp
  show ?thesis using w r by simp
qed


theorem rtc_roundtrip_witness:
  "readDateTime (setDateTime [31, 12, 99] [23, 59, 58] (\<lambda>r. 0)) globals0
     = globals0\<lparr> date := [31, 12, 99], time := [23, 59, 58] \<rparr>
   \<and> setDateTime [31, 12, 99] [23, 59, 58] (\<lambda>r. 0) 2 = 0x23
   \<and> setDateTime [31, 12, 99] [23, 59, 58] (\<lambda>r. 0) 3 = 0
   \<and> setDateTime [31, 12, 99] [23, 59, 58] (\<lambda>r. 0) 5 = 0x12"
proof -
  have t: "readDateTime (setDateTime [31, 12, 99] [23, 59, 58] (\<lambda>r. 0)) globals0
             = globals0\<lparr> date := [31, 12, 99], time := [23, 59, 58] \<rparr>
           \<and> setDateTime [31, 12, 99] [23, 59, 58] (\<lambda>r. 0)
             = (\<lambda>r. 0)(0 := bcd_byte 58, 1 := bcd_byte 59, 2 := bcd_byte 23,
                  4 := bcd_byte 31, 5 := bcd_byte 12, 6 := bcd_byte 99)"
    by (rule rtc_roundtrip) simp_all
  note block = conjunct2 [OF t]
  show ?thesis
    using conjunct1 [OF t] by (simp add: block bcd_byte_def)
qed

section \<open>The instant renderer\<close>

lemma upt_0_10: "[0..<10] = [0, 1, 2, 3, 4, 5, 6, 7, 8, 9::nat]"
  by (simp add: upt_rec)

lemma bit_test: "(val AND push_bit n 1 \<noteq> 0) = bit (val::int) n"
  by (simp add: bit_iff_and_push_bit_not_eq_0)

lemma shift10_frame: "shift10 dataPin clkPin val = frame val"
  using bit_test [of val 9] bit_test [of val 8] bit_test [of val 7] bit_test [of val 6]
    bit_test [of val 5] bit_test [of val 4] bit_test [of val 3] bit_test [of val 2]
    bit_test [of val 1] bit_test [of val 0]
  by (simp add: shift10_def frame_def upt_0_10 shift10_loop.simps)

lemma c_mod_nonneg: "0 \<le> a \<Longrightarrow> 0 < b \<Longrightarrow> c_mod a b = a mod b"
  by (simp add: c_mod_def c_div_nonneg minus_mult_div_eq_mod)

lemma displayTime_field_nonneg:
  assumes "0 \<le> v"
  shows "displayTime_field v = Inr (field_frames v)"
proof (cases "v > 99")
  case True
  then show ?thesis by (simp add: displayTime_field_def field_frames_def shift10_frame)
next
  case False
  with assms have m: "0 \<le> v mod 10" "v mod 10 < 10" and d: "0 \<le> v div 10" "v div 10 < 10"
    by simp_all
  show ?thesis
    using False assms m d
    by (simp add: displayTime_field_def field_frames_def shift10_frame numbers_at_def
        c_div_nonneg c_mod_nonneg)
qed

lemma displayTime_field_neg:
  assumes "v < 0"
  shows "\<exists>k. displayTime_field v = Inl (OutOfBounds k)"
proof (cases "c_mod v 10 < 0")
  case True
  with assms show ?thesis by (simp add: displayTime_field_def numbers_at_def)
next
  case False
  have q: "c_div v 10 = - (- v div 10)" using assms by (simp add: c_div_def sgn_if)
  have "c_mod v 10 = v + 10 * (- v div 10)" by (simp add: c_mod_def q)
  with mult_div_mod_eq [of 10 "- v"] have "c_mod v 10 = - (- v mod 10)" by linarith
  with False have "- v mod 10 = 0" by simp
  with mult_div_mod_eq [of 10 "- v"] assms have "0 < - v div 10" by linarith
  with q have "c_div v 10 < 0" by simp
  with assms show ?thesis
    by (simp add: displayTime_field_def numbers_at_def split: sum.splits)
qed

lemma displayTime_loop_unfold:
  "displayTime_loop 2 [a, b, c] =
     (case displayTime_field c of Inl e \<Rightarrow> Inl e | Inr f2 \<Rightarrow>
       (case displayTime_field b of Inl e \<Rightarrow> Inl e | Inr f1 \<Rightarrow>
         (case displayTime_field a of Inl e \<Rightarrow> Inl e | Inr f0 \<Rightarrow> Inr (f2 @ f1 @ f0))))"
  by (simp add: displayTime_loop.simps split: sum.splits)

lemma displayTime_stream:
  assumes "0 \<le> a" "0 \<le> b" "0 \<le> c"
  shows "displayTime [a, b, c] = Inr (frame_stream [a, b, c])"
  using assms
  by (simp add: displayTime_def displayTime_loop_unfold displayTime_field_nonneg frame_stream_def)

lemma displayTime_ok_iff:
  "(\<exists>evs. displayTime [a, b, c] = Inr evs) \<longleftrightarrow> 0 \<le> a \<and> 0 \<le> b \<and> 0 \<le> c"
proof
  assume ok: "\<exists>evs. displayTime [a, b, c] = Inr evs"
  note neg = displayTime_field_neg
  show "0 \<le> a \<and> 0 \<le> b \<and> 0 \<le> c"
  proof (rule ccontr)
    assume "\<not> (0 \<le> a \<and> 0 \<le> b \<and> 0 \<le> c)"
    then consider "a < 0" | "b < 0" | "c < 0" by linarith
    then show False
    proof cases
      case 1
      from neg [OF 1] ok show False
        by (auto simp: displayTime_def displayTime_loop_unfold split: sum.splits)
    next
      case 2
      from neg [OF 2] ok show False
        by (auto simp: displayTime_def displayTime_loop_unfold split: sum.splits)
    next
      case 3
      from neg [OF 3] ok show False
        by (auto simp: displayTime_def displayTime_loop_unfold split: sum.splits)
    qed
  qed
next
  assume "0 \<le> a \<and> 0 \<le> b \<and> 0 \<le> c"
  then show "\<exists>evs. displayTime [a, b, c] = Inr evs"
    by (simp add: displayTime_stream)
qed

lemma frame_blank:
  "frame blank =
     concat (replicate 10
       [DigitalWrite dataPin True, DigitalWrite clkPin True, DigitalWrite clkPin False])"
  by (simp add: frame_def blank_def upt_0_10 numeral_eq_Suc)

lemma length_frame: "length (frame val) = 30"
  by (simp add: frame_def upt_0_10)

lemma length_field_frames: "length (field_frames v) = 60"
  by (simp add: field_frames_def length_frame)

text \<open>
  Claim C8, for fields that are not negative. \<open>displayTime\<close> emits the fields from
  index 2 down to index 0; a field above 99 gives two blank frames, whose ten data
  bits are all high, and any other field gives the frame of its units digit
  (\<open>v mod 10\<close>) and then the frame of its tens digit (\<open>v div 10\<close>), each the table's
  pattern for that digit; the six frames of 30 pin writes each are followed by the
  strobe going high and then low.
\<close>

theorem displayTime_frame_stream:
  assumes "0 \<le> a" and "0 \<le> b" and "0 \<le> c"
  shows "displayTime [a, b, c] = Inr (frame_stream [a, b, c])
         \<and> frame_stream [a, b, c]
             = field_frames c @ field_frames b @ field_frames a
                 @ [DigitalWrite strobePin True, DigitalWrite strobePin False]
         \<and> length (frame_stream [a, b, c]) = 6 * 30 + 2
         \<and> frame blank =
             concat (replicate 10
               [DigitalWrite dataPin True, DigitalWrite clkPin True, DigitalWrite clkPin False])"
  using assms
  by (simp add: displayTime_stream frame_blank) (simp add: frame_stream_def length_field_frames)

theorem displayTime_frame_stream_witness:
  "displayTime [12, 100, 7] = Inr (frame_stream [12, 100, 7])
   \<and> frame_stream [12, 100, 7]
       = (frame (numbers ! 7) @ frame (numbers ! 0)) @ (frame blank @ frame blank)
           @ (frame (numbers ! 2) @ frame (numbers ! 1))
           @ [DigitalWrite strobePin True, DigitalWrite strobePin False]"
  using displayTime_frame_stream [of 12 100 7]
  by (simp add: field_frames_def)

text \<open>
  With a negative field the renderer takes the digit branch and reads outside the
  digit table, so the frame stream of claim C8 is not what it produces for every
  input.
\<close>

theorem displayTime_negative_field:
  "displayTime [- 1, 0, 0] = Inl (OutOfBounds (- 1))
   \<and> displayTime [- 1, 0, 0] \<noteq> Inr (frame_stream [- 1, 0, 0])"
  by (simp add: displayTime_def displayTime_loop_unfold displayTime_field_def numbers_at_def
      c_mod_def c_div_def numbers_def)

text \<open>
  Claim C10. \<open>displayTime\<close> stays inside the ten-entry digit table exactly when all
  three fields are non-negative. A field above 99 takes the blank branch; a field
  \<open>v\<close> from 0 to 99 indexes the table at \<open>v % 10\<close> and \<open>v / 10\<close>, both between 0
  and 9; a negative field takes the digit branch with a negative index.
\<close>

theorem displayTime_index_in_table:
  "((\<exists>evs. displayTime [a, b, c] = Inr evs) \<longleftrightarrow> 0 \<le> a \<and> 0 \<le> b \<and> 0 \<le> c)
   \<and> (99 < v \<longrightarrow> displayTime_field v = Inr (frame blank @ frame blank))
   \<and> (0 \<le> v \<and> v \<le> 99 \<longrightarrow>
        0 \<le> c_mod v 10 \<and> c_mod v 10 \<le> 9 \<and> 0 \<le> c_div v 10 \<and> c_div v 10 \<le> 9)
   \<and> (v < 0 \<longrightarrow> (\<exists>k. displayTime_field v = Inl (OutOfBounds k)))"
proof -
  have "0 \<le> v mod 10" and "v mod 10 \<le> 9" by simp_all
  moreover have "v \<le> 99 \<Longrightarrow> v div 10 \<le> 9" by simp
  moreover have "0 \<le> v \<Longrightarrow> 0 \<le> v div 10" by simp
  ultimately show ?thesis
    by (auto simp: displayTime_ok_iff displayTime_field_neg c_div_nonneg c_mod_nonneg)
      (simp add: displayTime_field_def shift10_frame)
qed

theorem displayTime_index_in_table_witness:
  "(\<exists>evs. displayTime [23, 59, 0] = Inr evs)
   \<and> \<not> (\<exists>evs. displayTime [0, - 10, 0] = Inr evs)
   \<and> c_mod 59 10 = 9 \<and> c_div 59 10 = 5
   \<and> displayTime_field (- 10) = Inl (OutOfBounds (- 1))"
  using displayTime_index_in_table [of 23 59 0 59] displayTime_index_in_table [of 0 "- 10" 0 "- 10"]
  by (simp add: c_mod_def c_div_def displayTime_field_def numbers_at_def numbers_def)

section \<open>The cathode-cleaning window\<close>

lemma c_mod_eq_0_iff: "b \<noteq> 0 \<Longrightarrow> c_mod a b = 0 \<longleftrightarrow> b dvd a"
proof
  assume "c_mod a b = 0"
  then have "a = b * c_div a b" by (simp add: c_mod_def)
  then show "b dvd a" by (metis dvd_triv_left)
next
  assume b: "b \<noteq> 0" and "b dvd a"
  then obtain k where k: "a = b * k" by (auto simp: dvd_def)
  have "\<bar>b * k\<bar> div \<bar>b\<bar> = \<bar>k\<bar>" using b by (simp add: abs_mult)
  then have "c_div a b = k"
    using b by (simp add: c_div_def k sgn_mult) (simp add: sgn_if)
  then show "c_mod a b = 0" by (simp add: c_mod_def k)
qed

lemma readDateTime_fields:
  "time (readDateTime regs g) =
     [(uint (regs 2) AND 0x0F) +
        (let b = drop_bit 4 (uint (regs 2) AND 0x30)
         in if b = 2 then 20 else if b = 1 then 10 else b),
      (uint (regs 1) AND 0x0F) + drop_bit 4 (uint (regs 1) AND 0x70) * 10,
      (uint (regs 0) AND 0x0F) + drop_bit 4 (uint (regs 0) AND 0x70) * 10]"
  unfolding readDateTime_def replicate_7 readDateTime_loop_regs by (simp add: Let_def)

lemma readDateTime_seconds_nonneg: "0 \<le> time (readDateTime regs g) ! seconds"
  by (simp add: readDateTime_fields seconds_def)

lemma readDateTime_mode: "mode (readDateTime regs g) = mode g"
  by (simp add: readDateTime_def Let_def)

lemma updateTime_time: "time (fst (updateTime regs g)) = time (readDateTime regs g)"
  by (simp add: updateTime_def Let_def)

lemma updateTime_cathodeClean:
  "cathodeClean (fst (updateTime regs g)) \<longleftrightarrow>
     c_mod (time (readDateTime regs g) ! minutes) 20 = 0
     \<and> time (readDateTime regs g) ! seconds < 3 \<and> mode g \<noteq> MODE_SET"
  by (simp add: updateTime_def Let_def readDateTime_mode)

lemma cathode_window:
  "cathodeClean (fst (updateTime regs g)) \<longleftrightarrow>
     20 dvd time (fst (updateTime regs g)) ! minutes
     \<and> time (fst (updateTime regs g)) ! seconds \<in> {0, 1, 2}
     \<and> mode g \<noteq> MODE_SET"
proof -
  have "0 \<le> time (readDateTime regs g) ! seconds" by (rule readDateTime_seconds_nonneg)
  then have "time (readDateTime regs g) ! seconds < 3
      \<longleftrightarrow> time (readDateTime regs g) ! seconds \<in> {0, 1, 2}"
    by auto
  then show ?thesis
    by (simp only: updateTime_cathodeClean updateTime_time c_mod_eq_0_iff)
qed

lemma updateTime_mode: "mode (fst (updateTime regs g)) = mode g"
  by (simp add: updateTime_def Let_def readDateTime_mode)

text \<open>
  Claim C4. After \<open>updateTime\<close> the cathode-cleaning flag is set exactly when the
  minutes just read are divisible by 20, the seconds just read are 0, 1 or 2, and the
  mode is not \<open>MODE_SET\<close>. In particular it is clear whenever the seconds just
  read are 3.
\<close>

theorem cathodeClean_window:
  "(cathodeClean (fst (updateTime regs g)) \<longleftrightarrow>
      20 dvd time (fst (updateTime regs g)) ! minutes
      \<and> time (fst (updateTime regs g)) ! seconds \<in> {0, 1, 2}
      \<and> mode (fst (updateTime regs g)) \<noteq> MODE_SET)
   \<and> (time (fst (updateTime regs g)) ! seconds = 3 \<longrightarrow>
        \<not> cathodeClean (fst (updateTime regs g)))"
  by (simp add: cathode_window updateTime_mode)

theorem cathodeClean_window_witness:
  "time (fst (updateTime ((\<lambda>r. 0)(0 := 0x02, 1 := 0x40)) globals0)) = [0, 40, 2]
   \<and> cathodeClean (fst (updateTime ((\<lambda>r. 0)(0 := 0x02, 1 := 0x40)) globals0))
   \<and> time (fst (updateTime ((\<lambda>r. 0)(0 := 0x03, 1 := 0x40)) globals0)) = [0, 40, 3]
   \<and> \<not> cathodeClean (fst (updateTime ((\<lambda>r. 0)(0 := 0x03, 1 := 0x40)) globals0))
   \<and> \<not> cathodeClean
         (fst (updateTime ((\<lambda>r. 0)(0 := 0x02, 1 := 0x40)) (globals0\<lparr> mode := MODE_SET \<rparr>)))"
  using cathodeClean_window [of "(\<lambda>r. 0)(0 := 0x02, 1 := 0x40)" globals0]
    cathodeClean_window [of "(\<lambda>r. 0)(0 := 0x03, 1 := 0x40)" globals0]
    cathodeClean_window [of "(\<lambda>r. 0)(0 := 0x02, 1 := 0x40)" "globals0\<lparr> mode := MODE_SET \<rparr>"]
  by (simp add: updateTime_time updateTime_mode readDateTime_fields index_defs globals0_def
      MODE_SET_def MODE_DISPLAY_TIME_def)

section \<open>The alarm trigger\<close>

text \<open>
  Claim C2. Each alarm's condition in \<open>handleAlarms\<close> holds exactly when that
  alarm is enabled, the current hours and minutes equal the alarm's, and the current
  seconds are 0. So for an enabled alarm the condition holds at one current time
  only, second 0 of the alarm's minute.
\<close>

theorem alarm_trigger:
  assumes "time g = [h, m, s]"
    and "al1Time (alarmSettings g) = [h1, m1]"
    and "al2Time (alarmSettings g) = [h2, m2]"
  shows "(handleAlarms_al1 g \<longleftrightarrow> al1Enabled (alarmSettings g) \<and> h = h1 \<and> m = m1 \<and> s = 0)
       \<and> (handleAlarms_al2 g \<longleftrightarrow> al2Enabled (alarmSettings g) \<and> h = h2 \<and> m = m2 \<and> s = 0)
       \<and> (al1Enabled (alarmSettings g) \<longrightarrow> (handleAlarms_al1 g \<longleftrightarrow> [h, m, s] = [h1, m1, 0]))
       \<and> (al2Enabled (alarmSettings g) \<longrightarrow> (handleAlarms_al2 g \<longleftrightarrow> [h, m, s] = [h2, m2, 0]))"
  using assms by (simp add: handleAlarms_al1_def handleAlarms_al2_def index_defs)

theorem alarm_trigger_witness:
  "handleAlarms_al1 (globals0\<lparr> time := [7, 30, 0],
       alarmSettings := \<lparr> al1Enabled = True, al2Enabled = False, al1Time = [7, 30], al2Time = [7, 30] \<rparr> \<rparr>)
   \<and> \<not> handleAlarms_al2 (globals0\<lparr> time := [7, 30, 0],
       alarmSettings := \<lparr> al1Enabled = True, al2Enabled = False, al1Time = [7, 30], al2Time = [7, 30] \<rparr> \<rparr>)
   \<and> \<not> handleAlarms_al1 (globals0\<lparr> time := [7, 30, 1],
       alarmSettings := \<lparr> al1Enabled = True, al2Enabled = False, al1Time = [7, 30], al2Time = [7, 30] \<rparr> \<rparr>)
   \<and> \<not> handleAlarms_al1 (globals0\<lparr> time := [7, 29, 59],
       alarmSettings := \<lparr> al1Enabled = True, al2Enabled = False, al1Time = [7, 30], al2Time = [7, 30] \<rparr> \<rparr>)"
  using
    alarm_trigger [of "globals0\<lparr> time := [7, 30, 0],
       alarmSettings := \<lparr> al1Enabled = True, al2Enabled = False, al1Time = [7, 30], al2Time = [7, 30] \<rparr> \<rparr>"
       7 30 0 7 30 7 30]
    alarm_trigger [of "globals0\<lparr> time := [7, 30, 1],
       alarmSettings := \<lparr> al1Enabled = True, al2Enabled = False, al1Time = [7, 30], al2Time = [7, 30] \<rparr> \<rparr>"
       7 30 1 7 30 7 30]
    alarm_trigger [of "globals0\<lparr> time := [7, 29, 59],
       alarmSettings := \<lparr> al1Enabled = True, al2Enabled = False, al1Time = [7, 30], al2Time = [7, 30] \<rparr> \<rparr>"
       7 29 59 7 30 7 30]
  by simp

section \<open>Drawing in date-and-time mode\<close>

text \<open>
  In \<open>MODE_DISPLAY_DATETIME\<close> the handler draws the time while
  \<open>(s div 5) mod 2 = 0\<close> and the date otherwise. In a time phase only second 0
  is drawn at once: every other second of a time phase is a cross-fade, the first
  second of the phases that start at 10, 20, 30, 40 and 50 included.
\<close>

lemma updateDisplay_datetime:
  assumes "mode g = MODE_DISPLAY_DATETIME" and "time g ! seconds = s" and "0 \<le> s"
  shows "updateDisplay g =
     (if (s div 5) mod 2 = 0 then
        (if s = 0 then [DisplayTime (time g), DigitalWrite decimalPoint False]
         else [FadeTo (time g) (prevTime g) fadeDuration, DigitalWrite decimalPoint False])
      else [DisplayTime (date g), DigitalWrite decimalPoint (even s)])"
proof -
  have "0 \<le> s div 5" using assms by simp
  then show ?thesis
    using assms
    by (simp add: updateDisplay_def MODE_DISPLAY_DATETIME_def MODE_DISPLAY_TIME_def
        switchInterval_def c_div_nonneg c_mod_nonneg even_iff_mod_2_eq_zero)
qed

text \<open>
  Claim C9 at second 10, where a time phase begins: the handler cross-fades from the
  previous time, it does not draw at once as it does at second 0.
\<close>

theorem updateDisplay_second_10:
  "updateDisplay (globals0\<lparr> mode := MODE_DISPLAY_DATETIME, time := [12, 0, 10], prevTime := [12, 0, 9] \<rparr>)
     = [FadeTo [12, 0, 10] [12, 0, 9] 150, DigitalWrite decimalPoint False]
   \<and> updateDisplay (globals0\<lparr> mode := MODE_DISPLAY_DATETIME, time := [12, 0, 10], prevTime := [12, 0, 9] \<rparr>)
     \<noteq> [DisplayTime [12, 0, 10], DigitalWrite decimalPoint False]
   \<and> updateDisplay (globals0\<lparr> mode := MODE_DISPLAY_DATETIME, time := [12, 0, 0], prevTime := [11, 59, 59] \<rparr>)
     = [DisplayTime [12, 0, 0], DigitalWrite decimalPoint False]"
  by (simp add: updateDisplay_datetime [where s = 10] updateDisplay_datetime [where s = 0]
      index_defs fadeDuration_def)


section \<open>Saving and loading the alarm settings\<close>

lemma bytes_int_int_bytes:
  assumes "0 \<le> v" and "v < 256"
  shows "bytes_int (int_bytes v ! 0) (int_bytes v ! 1) = v"
proof -
  have "drop_bit 8 v = 0" using assms by (simp add: drop_bit_eq_div)
  moreover have "uint (word_of_int v :: byte) = v"
    using assms by (simp add: uint_word_of_int take_bit_eq_mod)
  ultimately show ?thesis using assms by (simp add: bytes_int_def int_bytes_def)
qed

lemma byte_bool_bool_byte: "byte_bool (bool_byte b) = b"
  by (simp add: byte_bool_def bool_byte_def)

lemma read_after_write:
  "length bs = n \<Longrightarrow> eeprom_read_block 0 n (eeprom_write_block bs 0 n ee) = bs"
  by (rule nth_equalityI) (simp_all add: eeprom_read_block_def eeprom_write_block_def)

lemma length_alarmSettings_bytes: "length (alarmSettings_bytes a) = 10"
  by (simp add: alarmSettings_bytes_def int_bytes_def)

lemma alarm_in_range_pair:
  "alarm_in_range [h, m] \<longleftrightarrow> 0 \<le> h \<and> h \<le> 23 \<and> 0 \<le> m \<and> m \<le> 59"
  by (simp add: alarm_in_range_def index_defs)


lemma restrictAlarm_id: "alarm_in_range t \<Longrightarrow> restrictAlarm t = t"
  by (auto simp: alarm_in_range_def restrictAlarm_def index_defs Let_def)

lemma bytes_alarmSettings_bytes:
  assumes "alarm_in_range [h1, m1]" and "alarm_in_range [h2, m2]"
  shows "bytes_alarmSettings (alarmSettings_bytes
           \<lparr> al1Enabled = e1, al2Enabled = e2, al1Time = [h1, m1], al2Time = [h2, m2] \<rparr>)
         = \<lparr> al1Enabled = e1, al2Enabled = e2, al1Time = [h1, m1], al2Time = [h2, m2] \<rparr>"
proof -
  have r: "\<And>v. 0 \<le> v \<Longrightarrow> v \<le> 59 \<Longrightarrow> bytes_int (word_of_int v) (word_of_int (drop_bit 8 v)) = v"
    using bytes_int_int_bytes by (simp add: int_bytes_def)
  show ?thesis
    using assms
    by (simp add: bytes_alarmSettings_def alarmSettings_bytes_def int_bytes_def
        byte_bool_bool_byte r alarm_in_range_pair)
qed

text \<open>
  Claim C5. For alarm settings whose two times have hours from 0 to 23 and minutes
  from 0 to 59, \<open>saveAlarmSettings\<close> followed by \<open>loadAlarmSettings\<close> gives back
  the settings that were saved: the ten bytes read are the ten bytes written, and the
  clamp after the read leaves times in range as they are.
\<close>

theorem save_load:
  assumes "alarm_in_range [h1, m1]" and "alarm_in_range [h2, m2]"
    and "alarmSettings g = \<lparr> al1Enabled = e1, al2Enabled = e2, al1Time = [h1, m1], al2Time = [h2, m2] \<rparr>"
  shows "alarmSettings (fst (loadAlarmSettings (saveAlarmSettings g ee) g')) = alarmSettings g"
  using assms
  by (simp add: loadAlarmSettings_def saveAlarmSettings_def sizeof_alarmSettings_def
      read_after_write length_alarmSettings_bytes bytes_alarmSettings_bytes Let_def
      restrictAlarm_id)


theorem save_load_witness:
  "alarmSettings (fst (loadAlarmSettings
      (saveAlarmSettings
         (globals0\<lparr> alarmSettings :=
            \<lparr> al1Enabled = True, al2Enabled = False, al1Time = [6, 45], al2Time = [0, 0] \<rparr> \<rparr>)
         (\<lambda>a. 0xFF))
      globals0))
   = \<lparr> al1Enabled = True, al2Enabled = False, al1Time = [6, 45], al2Time = [0, 0] \<rparr>"
  using save_load [of 6 45 0 0
      "globals0\<lparr> alarmSettings :=
            \<lparr> al1Enabled = True, al2Enabled = False, al1Time = [6, 45], al2Time = [0, 0] \<rparr> \<rparr>"
      True False "\<lambda>a. 0xFF" globals0]
  by (simp add: alarm_in_range_pair)

section \<open>The alarm times stay in range\<close>






















section \<open>Brightness rate limiting\<close>








end
